theory Spec2Isabelle
  imports Complex_Main "HOL-Library.Log_Nat"
begin

section \<open>Values of the language\<close>

text \<open>
  The arithmetic of the sub-score functions is modelled on exact rationals, without the
  rounding of IEEE doubles; the composite, where \<open>Math.round\<close> makes the last bit of
  a double count, is modelled in doubles. Two more things of JavaScript are kept, since
  results depend on them: a value that is not a number where a number is expected (it
  makes the result NaN), and a method call on a value that has no such method (it
  raises a TypeError). An optional numeric or boolean field is an \<open>option\<close>: \<open>None\<close>
  stands for a field that is \<open>null\<close>, \<open>undefined\<close> or missing from the object, and
  a numeric field that is present holds a finite number. Strings are ASCII character
  lists.
\<close>

subsection \<open>Untyped values\<close>

text \<open>
  A value as an extractor may leave it in a field. Here a number is a rational, NaN or
  an infinity.
\<close>

datatype jsnum = Fin rat | NaN | PosInfinity | NegInfinity

datatype jsval = JUndefined | JNull | JBool bool | JNum jsnum | JStr string

datatype error = TypeError

text \<open>\<open>Boolean(v)\<close>, which is also the test of \<open>if (v)\<close>, \<open>!v\<close> and \<open>v || d\<close>.\<close>

fun Boolean :: "jsval \<Rightarrow> bool" where
  "Boolean JUndefined = False"
| "Boolean JNull = False"
| "Boolean (JBool b) = b"
| "Boolean (JNum n) = (n \<noteq> Fin 0 \<and> n \<noteq> NaN)"
| "Boolean (JStr s) = (s \<noteq> [])"

subsection \<open>Doubles\<close>

text \<open>
  A double holds magnitudes below \<open>2 ^ 1024 - 2 ^ 970\<close>, written out here in
  decimal; an exact result of that magnitude or more rounds to an infinity.
\<close>

definition doubleLimit :: rat where
  "doubleLimit = 179769313486231580793728971405303415079934132710037826936173778980444968292764750946649017977587207096330286416692887910946555547851940402630657488671505820681908902000708383676273854845817711531764475730270069855571366959622842914819860834936475292719074168444365510704342711559699508093042880177904174497792"










subsection \<open>Results of the scoring arithmetic\<close>

text \<open>
  A result of the sub-score functions is a rational or NaN; the exact arithmetic has no
  overflow and none of its divisors is zero, so no infinity arises. An arithmetic
  operation, \<open>Math.min\<close> and \<open>Math.max\<close> give NaN as soon as one operand is NaN.
\<close>

datatype number = Num rat | NotANumber

definition arith :: "(rat \<Rightarrow> rat \<Rightarrow> rat) \<Rightarrow> number \<Rightarrow> number \<Rightarrow> number" where
  "arith f a b =
     (case a of
        NotANumber \<Rightarrow> NotANumber
      | Num x \<Rightarrow> (case b of NotANumber \<Rightarrow> NotANumber | Num y \<Rightarrow> Num (f x y)))"



subsection \<open>Truthiness of fields and string helpers\<close>

text \<open>
  \<open>if (x)\<close> on a numeric field: the field is present and not zero. \<open>truthyNum\<close>
  returns the number in that case, so that each guarded block of the source is one
  \<open>case\<close> of the model.
\<close>

definition truthyNum :: "rat option \<Rightarrow> rat option" where
  "truthyNum x = (case x of None \<Rightarrow> None | Some v \<Rightarrow> if v = 0 then None else Some v)"

definition truthyBool :: "bool option \<Rightarrow> bool" where
  "truthyBool b = (case b of None \<Rightarrow> False | Some v \<Rightarrow> v)"

text \<open>\<open>String.prototype.toLowerCase\<close> on ASCII text.\<close>

definition lowerChar :: "char \<Rightarrow> char" where
  "lowerChar c =
     (case map_of (zip ''ABCDEFGHIJKLMNOPQRSTUVWXYZ'' ''abcdefghijklmnopqrstuvwxyz'') c of
        None \<Rightarrow> c | Some d \<Rightarrow> d)"

definition toLowerCase :: "string \<Rightarrow> string" where
  "toLowerCase s = map lowerChar s"

text \<open>
  \<open>(v || d).toLowerCase()\<close>: a falsy value gives way to the default; a truthy value
  that is no string has no method \<open>toLowerCase\<close>, and the call raises a TypeError.
\<close>

definition lowerCaseOr :: "jsval \<Rightarrow> string \<Rightarrow> error + string" where
  "lowerCaseOr v d =
     (if Boolean v then
        (case v of JStr s \<Rightarrow> Inr (toLowerCase s) | _ \<Rightarrow> Inl TypeError)
      else Inr (toLowerCase d))"

section \<open>The scoring engine (scoring.js, utils.js)\<close>

subsection \<open>The specification record\<close>

text \<open>
  The fields that scoring.js destructures from \<open>spec\<close>. The fields \<open>range\<close>,
  \<open>power\<close> and \<open>length\<close> of the source carry the suffix \<open>_f\<close>, since the plain names
  are constants of HOL. The body and transmission types are untyped values, since the
  source calls a string method on them; the fuel type is only compared and used as a
  key, where a value that is no string behaves as an unknown word, so it is a string or
  absent.
\<close>

record car_spec =
  fuelType :: "string option"
  mileage :: "rat option"
  range_f :: "rat option"
  batteryCapacity :: "rat option"
  displacement :: "rat option"
  cylinders :: "rat option"
  power_f :: "rat option"
  torque :: "rat option"
  gears :: "rat option"
  transmissionType :: jsval
  kerbWeight :: "rat option"
  length_f :: "rat option"
  width :: "rat option"
  height :: "rat option"
  groundClearance :: "rat option"
  bodyType :: jsval
  ncapStars :: "rat option"
  airbags :: "rat option"
  esc :: "bool option"
  isofix :: "bool option"
  price :: "rat option"

subsection \<open>Constant tables\<close>

text \<open>
  An object literal indexed by a string finds the keys written in the literal and,
  besides them, the properties that every object inherits from \<open>Object.prototype\<close>.
  An inherited property is a function (for \<open>__proto__\<close>, an object): it is truthy, so
  \<open>table[key] || d\<close> keeps it, and it is no number.
\<close>

definition inheritedProperties :: "string list" where
  "inheritedProperties =
     [''constructor'', ''__defineGetter__'', ''__defineSetter__'', ''hasOwnProperty'',
      ''__lookupGetter__'', ''__lookupSetter__'', ''isPrototypeOf'',
      ''propertyIsEnumerable'', ''toString'', ''valueOf'', ''__proto__'',
      ''toLocaleString'']"

datatype property = Own rat | Inherited | Absent

definition getProperty :: "(string \<rightharpoonup> rat) \<Rightarrow> string \<Rightarrow> property" where
  "getProperty table key =
     (case table key of
        Some v \<Rightarrow> Own v
      | None \<Rightarrow> if key \<in> set inheritedProperties then Inherited else Absent)"

text \<open>An optional key that is absent reads the property \<open>undefined\<close>, which no table has.\<close>

definition getPropertyOpt :: "(string \<rightharpoonup> rat) \<Rightarrow> string option \<Rightarrow> property" where
  "getPropertyOpt table key = (case key of None \<Rightarrow> Absent | Some k \<Rightarrow> getProperty table k)"

text \<open>
  \<open>table[key] || d\<close>, as the number it is in the arithmetic that follows: a stored
  \<open>0\<close> is falsy and gives way to the default, too; an inherited property makes every
  sum, difference and product it enters NaN (the sum of a number and a function is a
  string that is no numeral, which \<open>Math.max\<close> and \<open>-=\<close> turn into NaN).
\<close>

definition orDefault :: "property \<Rightarrow> rat \<Rightarrow> number" where
  "orDefault p d =
     (case p of
        Own v \<Rightarrow> if v = 0 then Num d else Num v
      | Inherited \<Rightarrow> NotANumber
      | Absent \<Rightarrow> Num d)"

definition REAL_WORLD_FACTORS :: "string \<rightharpoonup> rat" where
  "REAL_WORLD_FACTORS =
     map_of [(''ice'', 0.8), (''hybrid'', 0.85), (''cng'', 0.8), (''ev'', 0.75)]"

definition bodyTypePenalties :: "string \<rightharpoonup> rat" where
  "bodyTypePenalties =
     map_of [(''hatchback'', 2), (''sedan'', 5), (''crossover'', 10), (''mpv'', 15),
             (''suv'', 20), (''coupe'', 7), (''convertible'', 12)]"

definition transmissionPenalties :: "string \<rightharpoonup> rat" where
  "transmissionPenalties =
     map_of [(''manual'', 0), (''amt'', 2), (''cvt'', -1), (''dct'', 3),
             (''automatic'', 5), (''hybrid'', -3)]"

definition baseEfficiency :: "string \<rightharpoonup> rat" where
  "baseEfficiency =
     map_of [(''petrol'', 16), (''diesel'', 20), (''hybrid'', 23), (''cng'', 25),
             (''electric'', 6.0)]"

subsection \<open>calculateEfficiencyPenalty\<close>

text \<open>
  The source accumulates \<open>totalPenalty\<close> through eight numbered blocks. The six blocks
  that read numeric fields only are one function each, the change that the block makes
  to the accumulator.
\<close>

definition displacementPenalty :: "car_spec \<Rightarrow> rat" where
  "displacementPenalty spec =
     (case truthyNum (displacement spec) of
        None \<Rightarrow> 0
      | Some d \<Rightarrow>
          if d > 1500 then min ((d - 1500) / 100 * 2.5) 25
          else if d > 1200 then (d - 1200) / 100 * 1.5
          else if d < 1000 then - min ((1000 - d) / 100 * 2) 10
          else 0)"

definition weightPenalty :: "car_spec \<Rightarrow> rat" where
  "weightPenalty spec =
     (case truthyNum (kerbWeight spec) of
        None \<Rightarrow> 0
      | Some w \<Rightarrow>
          if w > 1200 then min ((w - 1200) / 100 * 4) 30
          else if w > 1000 then (w - 1000) / 100 * 2
          else if w < 900 then - min ((900 - w) / 100 * 3) 12
          else 0)"

definition cylinderPenalty :: "car_spec \<Rightarrow> rat" where
  "cylinderPenalty spec =
     (case truthyNum (cylinders spec) of
        None \<Rightarrow> 0
      | Some c \<Rightarrow> if c > 4 then (c - 4) * 3 else 0)"

definition powerToWeightPenalty :: "car_spec \<Rightarrow> rat" where
  "powerToWeightPenalty spec =
     (case (truthyNum (power_f spec), truthyNum (kerbWeight spec)) of
        (Some p, Some w) \<Rightarrow>
          (let powerToWeight = (p * 0.746) / (w / 1000)
           in if powerToWeight > 80 then min ((powerToWeight - 80) / 10 * 2) 12 else 0)
      | _ \<Rightarrow> 0)"

definition groundClearancePenalty :: "car_spec \<Rightarrow> rat" where
  "groundClearancePenalty spec =
     (case truthyNum (groundClearance spec) of
        None \<Rightarrow> 0
      | Some g \<Rightarrow> if g > 180 then min ((g - 180) / 10) 8 else 0)"

definition gearBonus :: "car_spec \<Rightarrow> rat" where
  "gearBonus spec =
     (case truthyNum (gears spec) of
        None \<Rightarrow> 0
      | Some g \<Rightarrow> if g \<ge> 6 then min (g - 5) 3 else 0)"

text \<open>
  Blocks 4 and 5 lower the case of the type and look it up in a table: they can raise a
  TypeError, and they can add a value that is no number.
\<close>

definition bodyTypePenalty :: "car_spec \<Rightarrow> error + number" where
  "bodyTypePenalty spec =
     (case lowerCaseOr (bodyType spec) ''sedan'' of
        Inl e \<Rightarrow> Inl e
      | Inr bodyTypeKey \<Rightarrow> Inr (orDefault (getProperty bodyTypePenalties bodyTypeKey) 7))"

definition transmissionPenalty :: "car_spec \<Rightarrow> error + number" where
  "transmissionPenalty spec =
     (case lowerCaseOr (transmissionType spec) ''manual'' of
        Inl e \<Rightarrow> Inl e
      | Inr transmissionKey \<Rightarrow>
          Inr (orDefault (getProperty transmissionPenalties transmissionKey) 2))"

text \<open>
  The blocks before block 4 have no effect besides the accumulator, so the model asks
  first whether block 4 or block 5 raises, in this order, and then runs the sum.
\<close>

definition calculateEfficiencyPenalty :: "car_spec \<Rightarrow> error + number" where
  "calculateEfficiencyPenalty spec =
     (case bodyTypePenalty spec of
        Inl e \<Rightarrow> Inl e
      | Inr bodyPenalty \<Rightarrow>
         (case transmissionPenalty spec of
            Inl e \<Rightarrow> Inl e
          | Inr gearboxPenalty \<Rightarrow>
             (let totalPenalty = Num 0;
                  totalPenalty = arith (+) totalPenalty (Num (displacementPenalty spec));
                  totalPenalty = arith (+) totalPenalty (Num (weightPenalty spec));
                  totalPenalty = arith (+) totalPenalty (Num (cylinderPenalty spec));
                  totalPenalty = arith (+) totalPenalty bodyPenalty;
                  totalPenalty = arith (+) totalPenalty gearboxPenalty;
                  totalPenalty = arith (+) totalPenalty (Num (powerToWeightPenalty spec));
                  totalPenalty = arith (+) totalPenalty (Num (groundClearancePenalty spec));
                  totalPenalty = arith (-) totalPenalty (Num (gearBonus spec))
              in Inr (arith max (Num 0) totalPenalty))))"

subsection \<open>calculateRealWorldEfficiency\<close>

definition mileageFactor :: "string option \<Rightarrow> rat" where
  "mileageFactor ft =
     (if ft = Some ''petrol'' \<or> ft = Some ''diesel'' then 0.8
      else if ft = Some ''hybrid'' then 0.85
      else if ft = Some ''cng'' then 0.8
      else 0.8)"

text \<open>The estimate from the penalty, the last branch of the function.\<close>

definition estimatedRealWorldEfficiency :: "car_spec \<Rightarrow> error + number" where
  "estimatedRealWorldEfficiency spec =
     (case calculateEfficiencyPenalty spec of
        Inl e \<Rightarrow> Inl e
      | Inr efficiencyPenalty \<Rightarrow>
         (let baseFuelEfficiency = orDefault (getPropertyOpt baseEfficiency (fuelType spec)) 16;
              penaltyFactor =
                arith max (Num 0.4) (arith (-) (Num 1) (arith (*) efficiencyPenalty (Num 0.015)));
              estimatedEfficiency = arith (*) baseFuelEfficiency penaltyFactor;
              correctionFactor =
                orDefault (getPropertyOpt REAL_WORLD_FACTORS (fuelType spec)) 0.8
          in Inr (arith (*) estimatedEfficiency correctionFactor)))"

definition calculateRealWorldEfficiency :: "car_spec \<Rightarrow> error + number" where
  "calculateRealWorldEfficiency spec =
     (case truthyNum (mileage spec) of
        Some m \<Rightarrow> Inr (Num (m * mileageFactor (fuelType spec)))
      | None \<Rightarrow>
         (case (fuelType spec = Some ''electric'',
                truthyNum (range_f spec), truthyNum (batteryCapacity spec)) of
            (True, Some r, Some b) \<Rightarrow>
              (let realWorldRange = r * 0.75 in Inr (Num (realWorldRange / b)))
          | _ \<Rightarrow> estimatedRealWorldEfficiency spec))"

subsection \<open>calculateCostPerKm\<close>




subsection \<open>calculateEfficiencyScore\<close>






subsection \<open>calculateSafetyScore\<close>

text \<open>The score inferred from the safety features, used when no star rating counts.\<close>

definition featureSafetyScore :: "car_spec \<Rightarrow> rat" where
  "featureSafetyScore spec =
     (let score = 0;
          score = (case truthyNum (airbags spec) of
                     None \<Rightarrow> score
                   | Some a \<Rightarrow> if a \<ge> 6 then score + 0.4
                               else if a \<ge> 2 then score + 0.2 else score);
          score = (if truthyBool (esc spec) then score + 0.2 else score);
          score = (if truthyBool (isofix spec) then score + 0.2 else score)
      in min score 0.6)"

definition calculateSafetyScore :: "car_spec \<Rightarrow> rat" where
  "calculateSafetyScore spec =
     (case truthyNum (ncapStars spec) of
        None \<Rightarrow> featureSafetyScore spec
      | Some s \<Rightarrow> if s > 0 then min (s / 5) 1 else featureSafetyScore spec)"

subsection \<open>clamp and normalize (utils.js)\<close>



subsection \<open>calculateValueScore and calculatePerformancePerEfficiencyScore\<close>



subsection \<open>calculateCompositeScore\<close>







section \<open>The record normalizer (validateSpec, parseNumber)\<close>

subsection \<open>The attribute bag\<close>

text \<open>
  \<open>validateSpec\<close> receives whatever the extractors found, so its input is an object of
  untyped values: a map from property names to values, where a name outside the domain
  reads as \<open>undefined\<close>.
\<close>

type_synonym raw_spec = "string \<rightharpoonup> jsval"

definition getField :: "raw_spec \<Rightarrow> string \<Rightarrow> jsval" where
  "getField spec field = (case spec field of None \<Rightarrow> JUndefined | Some v \<Rightarrow> v)"

text \<open>
  \<open>v.toString()\<close>. The decimal text of a finite number is the work of the runtime and is
  the parameter \<open>render\<close>; on \<open>null\<close> and \<open>undefined\<close> the call raises a TypeError.
\<close>

fun toString :: "(rat \<Rightarrow> string) \<Rightarrow> jsval \<Rightarrow> error + string" where
  "toString render JUndefined = Inl TypeError"
| "toString render JNull = Inl TypeError"
| "toString render (JBool b) = Inr (if b then ''true'' else ''false'')"
| "toString render (JNum (Fin q)) = Inr (render q)"
| "toString render (JNum NaN) = Inr ''NaN''"
| "toString render (JNum PosInfinity) = Inr ''Infinity''"
| "toString render (JNum NegInfinity) = Inr ''-Infinity''"
| "toString render (JStr s) = Inr s"

subsection \<open>parseFloat on cleaned text\<close>

definition isDigit :: "char \<Rightarrow> bool" where
  "isDigit c = (c \<in> set ''0123456789'')"

definition digitVal :: "char \<Rightarrow> int" where
  "digitVal c = of_char c - of_char (CHR ''0'')"

definition digitsToInt :: "string \<Rightarrow> int" where
  "digitsToInt ds = foldl (\<lambda>acc c. 10 * acc + digitVal c) 0 ds"

text \<open>
  A decimal text whose magnitude reaches \<open>doubleLimit\<close> parses to an infinity. The
  rounding of a smaller magnitude to the nearest double is left out of \<open>parseFloat\<close>:
  the normalizer only tests its result for NaN.
\<close>

definition toDouble :: "rat \<Rightarrow> jsnum" where
  "toDouble q =
     (if q \<ge> doubleLimit then PosInfinity
      else if q \<le> - doubleLimit then NegInfinity
      else Fin q)"

text \<open>
  \<open>parseFloat\<close> reads the longest prefix that is a decimal literal and gives NaN when
  there is none. \<open>parseNumber\<close> hands it text of digits, \<open>.\<close> and \<open>-\<close> only, so the
  literal is an optional minus sign, digits, and an optional point with digits; a
  point alone needs digits after it.
\<close>

definition parseFloat :: "string \<Rightarrow> jsnum" where
  "parseFloat s =
     (let negative = (case s of [] \<Rightarrow> False | c # cs \<Rightarrow> c = CHR ''-'');
          body = (if negative then tl s else s);
          intDigits = takeWhile isDigit body;
          afterInt = dropWhile isDigit body;
          fracDigits = (case afterInt of
                          [] \<Rightarrow> []
                        | c # cs \<Rightarrow> if c = CHR ''.'' then takeWhile isDigit cs else [])
      in if intDigits = [] \<and> fracDigits = [] then NaN
         else (let magnitude = of_int (digitsToInt intDigits)
                               + of_int (digitsToInt fracDigits) / 10 ^ length fracDigits
               in toDouble (if negative then - magnitude else magnitude)))"

subsection \<open>parseNumber (utils.js)\<close>

text \<open>The characters that the pattern \<open>[^\d.-]\<close> leaves in place.\<close>

definition keptChar :: "char \<Rightarrow> bool" where
  "keptChar c = (isDigit c \<or> c = CHR ''.'' \<or> c = CHR ''-'')"

definition parseNumber :: "(rat \<Rightarrow> string) \<Rightarrow> jsval \<Rightarrow> error + jsval" where
  "parseNumber render text =
     (if \<not> Boolean text then Inr JNull
      else (case toString render text of
              Inl e \<Rightarrow> Inl e
            | Inr str \<Rightarrow>
                (let cleaned = filter (\<lambda>c. c \<noteq> CHR '','') (filter keptChar str);
                     num = parseFloat cleaned
                 in Inr (if num = NaN then JNull else JNum num))))"

subsection \<open>validateSpec (scoring.js)\<close>

definition numericFields :: "string list" where
  "numericFields = [''mileage'', ''range'', ''batteryCapacity'', ''power'', ''kerbWeight'',
                    ''price'', ''ncapStars'', ''airbags'']"

definition booleanFields :: "string list" where
  "booleanFields = [''esc'', ''isofix'']"

text \<open>The body of the first \<open>forEach\<close>, and the loop over the list of names.\<close>

definition coerceNumeric :: "(rat \<Rightarrow> string) \<Rightarrow> raw_spec \<Rightarrow> string \<Rightarrow> error + raw_spec" where
  "coerceNumeric render spec field =
     (if getField spec field \<noteq> JNull \<and> getField spec field \<noteq> JUndefined then
        (case parseNumber render (getField spec field) of
           Inl e \<Rightarrow> Inl e
         | Inr num \<Rightarrow> Inr (spec(field \<mapsto> num)))
      else Inr spec)"

fun coerceNumericFields :: "(rat \<Rightarrow> string) \<Rightarrow> raw_spec \<Rightarrow> string list \<Rightarrow> error + raw_spec" where
  "coerceNumericFields render spec [] = Inr spec"
| "coerceNumericFields render spec (field # rest) =
     (case coerceNumeric render spec field of
        Inl e \<Rightarrow> Inl e
      | Inr spec' \<Rightarrow> coerceNumericFields render spec' rest)"

text \<open>The body of the second \<open>forEach\<close>, and its loop.\<close>

definition coerceBoolean :: "raw_spec \<Rightarrow> string \<Rightarrow> raw_spec" where
  "coerceBoolean spec field =
     (if getField spec field \<noteq> JNull \<and> getField spec field \<noteq> JUndefined
      then spec(field \<mapsto> JBool (Boolean (getField spec field)))
      else spec)"

fun coerceBooleanFields :: "raw_spec \<Rightarrow> string list \<Rightarrow> raw_spec" where
  "coerceBooleanFields spec [] = spec"
| "coerceBooleanFields spec (field # rest) = coerceBooleanFields (coerceBoolean spec field) rest"

text \<open>
  \<open>spec.fuelType.toLowerCase()\<close> is a method of strings only: on a truthy value of
  another type the call raises a TypeError.
\<close>

definition normalizeFuelType :: "raw_spec \<Rightarrow> error + raw_spec" where
  "normalizeFuelType spec =
     (if Boolean (getField spec ''fuelType'') then
        (case getField spec ''fuelType'' of
           JStr s \<Rightarrow> Inr (spec(''fuelType'' \<mapsto> JStr (toLowerCase s)))
         | _ \<Rightarrow> Inl TypeError)
      else Inr spec)"

definition validateSpec :: "(rat \<Rightarrow> string) \<Rightarrow> raw_spec \<Rightarrow> error + raw_spec" where
  "validateSpec render rawSpec =
     (case coerceNumericFields render rawSpec numericFields of
        Inl e \<Rightarrow> Inl e
      | Inr spec \<Rightarrow> normalizeFuelType (coerceBooleanFields spec booleanFields))"

section \<open>Settings, sample records and the predicates of the properties\<close>

subsection \<open>getDefaultSettings (utils.js)\<close>



subsection \<open>Sample records\<close>

text \<open>The record with every field absent.\<close>

definition emptySpec :: car_spec where
  "emptySpec =
     \<lparr> fuelType = None, mileage = None, range_f = None, batteryCapacity = None,
       displacement = None, cylinders = None, power_f = None, torque = None, gears = None,
       transmissionType = JUndefined, kerbWeight = None, length_f = None, width = None,
       height = None, groundClearance = None, bodyType = JUndefined, ncapStars = None,
       airbags = None, esc = None, isofix = None, price = None \<rparr>"

text \<open>The small petrol hatchback of the scenario in section 8 of the specification.\<close>

definition scenarioSpec :: car_spec where
  "scenarioSpec =
     emptySpec \<lparr> fuelType := Some ''petrol'', mileage := None, displacement := Some 1197,
       kerbWeight := Some 950, cylinders := Some 4, transmissionType := JStr ''manual'',
       bodyType := JStr ''hatchback'', gears := Some 5 \<rparr>"



text \<open>A car with six airbags and ESC whose star rating is left open.\<close>

definition airbagSpec :: car_spec where
  "airbagSpec = emptySpec \<lparr> airbags := Some 6, esc := Some True \<rparr>"

text \<open>A very small and light hatchback with a hybrid transmission of eight gears.\<close>

definition featherSpec :: car_spec where
  "featherSpec =
     emptySpec \<lparr> displacement := Some 500, kerbWeight := Some 500, gears := Some 8,
       transmissionType := JStr ''hybrid'', bodyType := JStr ''hatchback'' \<rparr>"




text \<open>Three records off the beaten track: each has one type field of an unusual value.\<close>

definition constructorBodySpec :: car_spec where
  "constructorBodySpec = emptySpec \<lparr> bodyType := JStr ''constructor'' \<rparr>"



subsection \<open>Predicates of the properties\<close>



text \<open>
  A type field that is falsy or a string, so that \<open>toLowerCase\<close> can be called; and
  one whose key, moreover, is not a property that every object inherits.
\<close>

definition stringOrFalsy :: "jsval \<Rightarrow> bool" where
  "stringOrFalsy v = (case v of JStr s \<Rightarrow> True | _ \<Rightarrow> Boolean v = False)"

definition ordinaryType :: "jsval \<Rightarrow> bool" where
  "ordinaryType v =
     (case v of
        JStr s \<Rightarrow> toLowerCase s \<notin> set inheritedProperties
      | _ \<Rightarrow> Boolean v = False)"





text \<open>
  The sixteen numeric fields that the specification lists, and its invariant for a value
  of such a field: absent, or a finite number that is not negative.
\<close>

definition specNumericFields :: "string list" where
  "specNumericFields =
     [''mileage'', ''range'', ''batteryCapacity'', ''displacement'', ''cylinders'', ''power'',
      ''torque'', ''gears'', ''kerbWeight'', ''length'', ''width'', ''height'',
      ''groundClearance'', ''ncapStars'', ''airbags'', ''price'']"

fun finiteNonNegativeOrAbsent :: "jsval \<Rightarrow> bool" where
  "finiteNonNegativeOrAbsent JUndefined = True"
| "finiteNonNegativeOrAbsent JNull = True"
| "finiteNonNegativeOrAbsent (JNum (Fin q)) = (0 \<le> q)"
| "finiteNonNegativeOrAbsent (JNum NaN) = False"
| "finiteNonNegativeOrAbsent (JNum PosInfinity) = False"
| "finiteNonNegativeOrAbsent (JNum NegInfinity) = False"
| "finiteNonNegativeOrAbsent (JBool b) = False"
| "finiteNonNegativeOrAbsent (JStr s) = False"

text \<open>What the normalizer does establish: absent, or a number other than NaN.\<close>

fun absentOrNotNaN :: "jsval \<Rightarrow> bool" where
  "absentOrNotNaN JUndefined = True"
| "absentOrNotNaN JNull = True"
| "absentOrNotNaN (JNum n) = (n \<noteq> NaN)"
| "absentOrNotNaN (JBool b) = False"
| "absentOrNotNaN (JStr s) = False"

subsection \<open>A sample attribute bag\<close>

text \<open>
  The decimal text of an integer, as \<open>Number.prototype.toString\<close> gives it for an
  integer below \<open>10 ^ 21\<close>; the samples render integers only.
\<close>

fun natDigits :: "nat \<Rightarrow> string" where
  "natDigits n =
     (if n < 10 then [char_of (of_char (CHR ''0'') + n)]
      else natDigits (n div 10) @ [char_of (of_char (CHR ''0'') + n mod 10)])"

definition renderInteger :: "rat \<Rightarrow> string" where
  "renderInteger q = (if q < 0 then ''-'' else []) @ natDigits (nat \<bar>\<lfloor>q\<rfloor>\<bar>)"

text \<open>
  A bag with a negative mileage, a price text of 310 digits, a displacement that is
  NaN, a fuel type in capitals and a truthy ESC entry.
\<close>

definition rawExample :: raw_spec where
  "rawExample =
     [''mileage'' \<mapsto> JNum (Fin (- 5)),
      ''price'' \<mapsto> JStr (CHR ''1'' # replicate 309 (CHR ''0'')),
      ''kerbWeight'' \<mapsto> JStr ''1,150 kg'',
      ''displacement'' \<mapsto> JNum NaN,
      ''fuelType'' \<mapsto> JStr ''Petrol'',
      ''esc'' \<mapsto> JStr ''yes'']"

section \<open>Auxiliary facts\<close>

subsection \<open>Rounding to a double\<close>







subsection \<open>Numbers and keys\<close>

lemma arith_Num: "arith f (Num x) (Num y) = Num (f x y)"
  by (simp add: arith_def)

lemma arith_is_Num:
  "arith f a b = Num z \<longleftrightarrow> (\<exists>x y. a = Num x \<and> b = Num y \<and> z = f x y)"
  by (auto simp: arith_def split: number.splits)



lemma lowerCaseOr_ordinary:
  assumes "ordinaryType v" and "toLowerCase d \<notin> set inheritedProperties"
  shows "\<exists>k. lowerCaseOr v d = Inr k \<and> k \<notin> set inheritedProperties"
proof (cases v)
  case (JStr s)
  show ?thesis
  proof (cases "s = []")
    case True
    then show ?thesis using JStr assms(2) by (simp add: lowerCaseOr_def)
  next
    case False
    then show ?thesis using JStr assms(1) by (simp add: lowerCaseOr_def ordinaryType_def)
  qed
qed (use assms in \<open>auto simp: lowerCaseOr_def ordinaryType_def\<close>)

lemma ordinaryType_stringOrFalsy: "ordinaryType v \<Longrightarrow> stringOrFalsy v"
  by (cases v) (auto simp: ordinaryType_def stringOrFalsy_def)

lemma orDefault_own_key:
  "k \<notin> set inheritedProperties \<Longrightarrow> \<exists>x. orDefault (getProperty table k) d = Num x"
  by (auto simp: orDefault_def getProperty_def split: option.splits)

lemma sedan_manual_ordinary:
  "toLowerCase ''sedan'' \<notin> set inheritedProperties"
  "toLowerCase ''manual'' \<notin> set inheritedProperties"
  by (simp_all add: toLowerCase_def lowerChar_def inheritedProperties_def)

subsection \<open>The penalty\<close>





lemma penalty_nonneg:
  "calculateEfficiencyPenalty spec = Inr (Num p) \<Longrightarrow> 0 \<le> p"
  by (auto simp: calculateEfficiencyPenalty_def Let_def arith_is_Num split: sum.splits)

lemma bodyTypePenalty_number:
  "ordinaryType (bodyType spec) \<Longrightarrow> \<exists>x. bodyTypePenalty spec = Inr (Num x)"
  using lowerCaseOr_ordinary [OF _ sedan_manual_ordinary(1), of "bodyType spec"]
    orDefault_own_key [of _ bodyTypePenalties 7]
  by (fastforce simp: bodyTypePenalty_def)

lemma transmissionPenalty_number:
  "ordinaryType (transmissionType spec) \<Longrightarrow> \<exists>x. transmissionPenalty spec = Inr (Num x)"
  using lowerCaseOr_ordinary [OF _ sedan_manual_ordinary(2), of "transmissionType spec"]
    orDefault_own_key [of _ transmissionPenalties 2]
  by (fastforce simp: transmissionPenalty_def)

lemma penalty_number:
  assumes "ordinaryType (bodyType spec)" and "ordinaryType (transmissionType spec)"
  shows "\<exists>p. calculateEfficiencyPenalty spec = Inr (Num p) \<and> 0 \<le> p"
proof -
  obtain b where b: "bodyTypePenalty spec = Inr (Num b)"
    using bodyTypePenalty_number [OF assms(1)] by blast
  obtain t where t: "transmissionPenalty spec = Inr (Num t)"
    using transmissionPenalty_number [OF assms(2)] by blast
  have "\<exists>p. calculateEfficiencyPenalty spec = Inr (Num p)"
    by (simp add: calculateEfficiencyPenalty_def Let_def b t arith_Num)
  then show ?thesis using penalty_nonneg by blast
qed

subsection \<open>The real-world efficiency\<close>










subsection \<open>Bounds of the sub-scores\<close>






lemma featureSafety_bounds: "0 \<le> featureSafetyScore spec \<and> featureSafetyScore spec \<le> 0.6"
  by (simp add: featureSafetyScore_def Let_def split: option.split)





subsection \<open>The composite\<close>





















subsection \<open>The safety score by star rating\<close>

lemma featureSafetyScore_ncapStars:
  "featureSafetyScore (spec \<lparr> ncapStars := x \<rparr>) = featureSafetyScore spec"
  by (simp add: featureSafetyScore_def)

lemma safety_of_stars:
  "0 < s \<Longrightarrow> calculateSafetyScore (spec \<lparr> ncapStars := Some s \<rparr>) = min (s / 5) 1"
  by (simp add: calculateSafetyScore_def truthyNum_def)

lemma safety_unrated:
  "x = None \<or> x = Some 0 \<Longrightarrow>
     calculateSafetyScore (spec \<lparr> ncapStars := x \<rparr>) = featureSafetyScore spec"
  by (auto simp: calculateSafetyScore_def truthyNum_def featureSafetyScore_ncapStars)

subsection \<open>The loops of the normalizer\<close>

lemma doubleLimit_power: "doubleLimit = 2 ^ 1024 - 2 ^ 970"
  by (simp add: doubleLimit_def)

lemma toDouble_notNaN: "toDouble q \<noteq> NaN"
  by (simp add: toDouble_def)

lemma parseNumber_result:
  "\<exists>v. parseNumber render text = Inr v \<and> absentOrNotNaN v"
proof (cases "Boolean text")
  case False
  then show ?thesis by (simp add: parseNumber_def)
next
  case True
  then obtain str where "toString render text = Inr str"
    by (cases "(render, text)" rule: toString.cases) auto
  then show ?thesis using True by (simp add: parseNumber_def Let_def)
qed

lemma coerceNumeric_step:
  assumes "coerceNumeric render spec g = Inr spec'"
    and "f = g \<or> absentOrNotNaN (getField spec f)"
  shows "absentOrNotNaN (getField spec' f)"
proof -
  obtain v where v: "parseNumber render (getField spec g) = Inr v" "absentOrNotNaN v"
    using parseNumber_result by blast
  show ?thesis
  proof (cases "getField spec g \<noteq> JNull \<and> getField spec g \<noteq> JUndefined")
    case True
    then have "spec' = spec(g \<mapsto> v)" using assms(1) v by (simp add: coerceNumeric_def)
    then show ?thesis using assms(2) v(2) by (auto simp: getField_def)
  next
    case False
    then have "spec' = spec" using assms(1) by (auto simp: coerceNumeric_def)
    moreover have "absentOrNotNaN (getField spec g)" using False by auto
    ultimately show ?thesis using assms(2) by auto
  qed
qed

lemma coerceNumeric_returns: "\<exists>spec'. coerceNumeric render spec g = Inr spec'"
  using parseNumber_result [of render "getField spec g"]
  by (auto simp: coerceNumeric_def)

lemma coerceNumericFields_returns: "\<exists>spec'. coerceNumericFields render spec fs = Inr spec'"
proof (induction fs arbitrary: spec)
  case Nil
  then show ?case by simp
next
  case (Cons g fs)
  obtain s1 where "coerceNumeric render spec g = Inr s1" using coerceNumeric_returns by blast
  then show ?case using Cons.IH [of s1] by simp
qed

lemma coerceNumericFields_inv:
  assumes "coerceNumericFields render spec fs = Inr spec'"
    and "f \<in> set fs \<or> absentOrNotNaN (getField spec f)"
  shows "absentOrNotNaN (getField spec' f)"
  using assms
proof (induction fs arbitrary: spec)
  case Nil
  then show ?case by simp
next
  case (Cons g fs)
  obtain s1 where s1: "coerceNumeric render spec g = Inr s1" using coerceNumeric_returns by blast
  with Cons.prems(1) have rest: "coerceNumericFields render s1 fs = Inr spec'" by simp
  show ?case
  proof (cases "f \<in> set fs")
    case True
    then show ?thesis using Cons.IH [OF rest] by simp
  next
    case False
    then have "f = g \<or> absentOrNotNaN (getField spec f)" using Cons.prems(2) by auto
    then have "absentOrNotNaN (getField s1 f)" using coerceNumeric_step [OF s1] by simp
    then show ?thesis using Cons.IH [OF rest] by simp
  qed
qed

lemma coerceBoolean_other: "f \<noteq> g \<Longrightarrow> getField (coerceBoolean spec g) f = getField spec f"
  by (simp add: coerceBoolean_def getField_def)

lemma coerceBooleanFields_other:
  "f \<notin> set gs \<Longrightarrow> getField (coerceBooleanFields spec gs) f = getField spec f"
  by (induction gs arbitrary: spec) (simp_all add: coerceBoolean_other)

lemma normalizeFuelType_other:
  "normalizeFuelType spec = Inr spec' \<Longrightarrow> f \<noteq> ''fuelType'' \<Longrightarrow> getField spec' f = getField spec f"
  by (auto simp: normalizeFuelType_def getField_def split: if_splits jsval.splits)

lemma numericFields_apart:
  "f \<in> set numericFields \<Longrightarrow> f \<notin> set booleanFields \<and> f \<noteq> ''fuelType''"
  by (auto simp: numericFields_def booleanFields_def)

lemma coerceBoolean_fuelType: "g \<in> set booleanFields \<Longrightarrow> ''fuelType'' \<noteq> g"
  by (auto simp: booleanFields_def)

lemma coerceNumeric_other:
  "coerceNumeric render spec g = Inr spec' \<Longrightarrow> f \<noteq> g \<Longrightarrow> getField spec' f = getField spec f"
  by (auto simp: coerceNumeric_def getField_def split: if_splits sum.splits)

lemma coerceNumericFields_other:
  "coerceNumericFields render spec fs = Inr spec' \<Longrightarrow> f \<notin> set fs \<Longrightarrow>
     getField spec' f = getField spec f"
proof (induction fs arbitrary: spec)
  case Nil
  then show ?case by simp
next
  case (Cons g fs)
  obtain s1 where s1: "coerceNumeric render spec g = Inr s1" using coerceNumeric_returns by blast
  with Cons.prems(1) have rest: "coerceNumericFields render s1 fs = Inr spec'" by simp
  have "getField spec' f = getField s1 f" using Cons.IH [OF rest] Cons.prems(2) by simp
  also have "\<dots> = getField spec f" using coerceNumeric_other [OF s1] Cons.prems(2) by simp
  finally show ?case .
qed

lemma normalizeFuelType_returns_iff:
  "(\<exists>spec'. normalizeFuelType spec = Inr spec') \<longleftrightarrow>
     (Boolean (getField spec ''fuelType'') = False \<or> (\<exists>s. getField spec ''fuelType'' = JStr s))"
  by (cases "getField spec ''fuelType''") (auto simp: normalizeFuelType_def)

lemma fuelType_kept:
  assumes "coerceNumericFields render rawSpec numericFields = Inr spec"
  shows "getField (coerceBooleanFields spec booleanFields) ''fuelType'' = getField rawSpec ''fuelType''"
proof -
  have "getField (coerceBooleanFields spec booleanFields) ''fuelType'' = getField spec ''fuelType''"
    by (rule coerceBooleanFields_other) (simp add: booleanFields_def)
  also have "\<dots> = getField rawSpec ''fuelType''"
    by (rule coerceNumericFields_other [OF assms]) (simp add: numericFields_def)
  finally show ?thesis .
qed

lemma validateSpec_returns_iff:
  "(\<exists>spec. validateSpec render rawSpec = Inr spec) \<longleftrightarrow>
     (Boolean (getField rawSpec ''fuelType'') = False \<or> (\<exists>s. getField rawSpec ''fuelType'' = JStr s))"
proof -
  obtain s1 where s1: "coerceNumericFields render rawSpec numericFields = Inr s1"
    using coerceNumericFields_returns by blast
  have "validateSpec render rawSpec = normalizeFuelType (coerceBooleanFields s1 booleanFields)"
    using s1 by (simp add: validateSpec_def)
  then show ?thesis
    using normalizeFuelType_returns_iff [of "coerceBooleanFields s1 booleanFields"] fuelType_kept [OF s1]
    by simp
qed

lemma validateSpec_numeric:
  assumes "validateSpec render rawSpec = Inr spec" and "f \<in> set numericFields"
  shows "absentOrNotNaN (getField spec f)"
proof -
  obtain s1 where s1: "coerceNumericFields render rawSpec numericFields = Inr s1"
    using coerceNumericFields_returns by blast
  have n: "normalizeFuelType (coerceBooleanFields s1 booleanFields) = Inr spec"
    using s1 assms(1) by (simp add: validateSpec_def)
  have "getField spec f = getField (coerceBooleanFields s1 booleanFields) f"
    using normalizeFuelType_other [OF n] numericFields_apart [OF assms(2)] by simp
  also have "\<dots> = getField s1 f"
    using coerceBooleanFields_other numericFields_apart [OF assms(2)] by simp
  finally show ?thesis using coerceNumericFields_inv [OF s1] assms(2) by simp
qed

section \<open>The properties\<close>







text \<open>
  Claim C3, as stated, fails on the sample bag: the negative mileage comes back
  negative, the price text of 310 digits comes back as an infinity, and the
  displacement, which is not in the list of coerced fields, comes back as the NaN it
  was.
\<close>

theorem validateSpec_counterexample:
  "(case validateSpec renderInteger rawExample of
      Inl e \<Rightarrow> False
    | Inr spec \<Rightarrow>
        getField spec ''mileage'' = JNum (Fin (- 5)) \<and>
        getField spec ''price'' = JNum PosInfinity \<and>
        getField spec ''displacement'' = JNum NaN \<and>
        \<not> finiteNonNegativeOrAbsent (getField spec ''mileage'') \<and>
        \<not> finiteNonNegativeOrAbsent (getField spec ''price'') \<and>
        \<not> finiteNonNegativeOrAbsent (getField spec ''displacement'') \<and>
        \<not> list_all (\<lambda>field. finiteNonNegativeOrAbsent (getField spec field)) specNumericFields)"
  by code_simp

text \<open>
  Claim C3, amended. \<open>validateSpec\<close> returns a record exactly when the fuel type of the
  bag is falsy or a string, and in the record it returns each of the eight fields it
  coerces (mileage, range, batteryCapacity, power, kerbWeight, price, ncapStars,
  airbags) is absent (null or undefined) or a number other than NaN.
\<close>

theorem validateSpec_coerced_fields:
  "((\<exists>spec. validateSpec render rawSpec = Inr spec) \<longleftrightarrow>
      (Boolean (getField rawSpec ''fuelType'') = False \<or>
       (\<exists>s. getField rawSpec ''fuelType'' = JStr s))) \<and>
   (\<forall>spec. validateSpec render rawSpec = Inr spec \<longrightarrow>
      (\<forall>field \<in> set numericFields. absentOrNotNaN (getField spec field)))"
  using validateSpec_returns_iff [of render rawSpec] validateSpec_numeric [of render rawSpec]
  by blast

theorem validateSpec_coerced_fields_witness:
  "(case validateSpec renderInteger rawExample of
      Inl e \<Rightarrow> False
    | Inr spec \<Rightarrow>
        list_all (\<lambda>field. absentOrNotNaN (getField spec field)) numericFields \<and>
        getField spec ''mileage'' = JNum (Fin (- 5)) \<and>
        getField spec ''kerbWeight'' = JNum (Fin 1150) \<and>
        getField spec ''range'' = JUndefined \<and>
        getField spec ''fuelType'' = JStr ''petrol'' \<and>
        getField spec ''esc'' = JBool True)"
proof -
  have "getField rawExample ''fuelType'' = JStr ''Petrol''"
    by (simp add: rawExample_def getField_def)
  then obtain spec where s: "validateSpec renderInteger rawExample = Inr spec"
    using validateSpec_coerced_fields [of renderInteger rawExample] by blast
  then have "\<forall>field \<in> set numericFields. absentOrNotNaN (getField spec field)"
    using validateSpec_coerced_fields [of renderInteger rawExample] by blast
  then have a: "list_all (\<lambda>field. absentOrNotNaN (getField spec field)) numericFields"
    by (simp add: list_all_iff)
  have "(case validateSpec renderInteger rawExample of
      Inl e \<Rightarrow> False
    | Inr spec \<Rightarrow>
        getField spec ''mileage'' = JNum (Fin (- 5)) \<and>
        getField spec ''kerbWeight'' = JNum (Fin 1150) \<and>
        getField spec ''range'' = JUndefined \<and>
        getField spec ''fuelType'' = JStr ''petrol'' \<and>
        getField spec ''esc'' = JBool True)"
    by code_simp
  then show ?thesis using s a by simp
qed

text \<open>
  Claim C4, as stated, fails at the step from no rating (or 0 stars) to 1 star: with
  six airbags and ESC the unrated car scores 0.6 and the one-star car 0.2.
\<close>

theorem safety_not_monotone_from_unrated_counterexample:
  "calculateSafetyScore (airbagSpec \<lparr> ncapStars := Some 0 \<rparr>) = 0.6 \<and>
   calculateSafetyScore (airbagSpec \<lparr> ncapStars := None \<rparr>) = 0.6 \<and>
   calculateSafetyScore (airbagSpec \<lparr> ncapStars := Some 1 \<rparr>) = 0.2 \<and>
   calculateSafetyScore (airbagSpec \<lparr> ncapStars := Some 1 \<rparr>)
     < calculateSafetyScore (airbagSpec \<lparr> ncapStars := Some 0 \<rparr>)"
  by (simp add: calculateSafetyScore_def featureSafetyScore_def airbagSpec_def emptySpec_def
        truthyNum_def truthyBool_def Let_def)

text \<open>
  Claim C4, amended. With all other fields fixed, \<open>calculateSafetyScore\<close> does not
  decrease when a positive star rating grows; the step from no rating or 0 stars to a
  rating of 3 stars or more does not decrease it either; and with no rating or 0 stars
  the score is the one inferred from the features, which never exceeds 0.6.
\<close>

theorem safety_monotone_in_positive_stars:
  "(0 < s1 \<and> s1 \<le> s2 \<longrightarrow>
      calculateSafetyScore (spec \<lparr> ncapStars := Some s1 \<rparr>)
        \<le> calculateSafetyScore (spec \<lparr> ncapStars := Some s2 \<rparr>)) \<and>
   (3 \<le> s \<longrightarrow>
      calculateSafetyScore (spec \<lparr> ncapStars := None \<rparr>)
        \<le> calculateSafetyScore (spec \<lparr> ncapStars := Some s \<rparr>) \<and>
      calculateSafetyScore (spec \<lparr> ncapStars := Some 0 \<rparr>)
        \<le> calculateSafetyScore (spec \<lparr> ncapStars := Some s \<rparr>)) \<and>
   (ncapStars spec = None \<or> ncapStars spec = Some 0 \<longrightarrow>
      calculateSafetyScore spec = featureSafetyScore spec \<and> calculateSafetyScore spec \<le> 0.6)"
proof (intro conjI impI)
  assume "0 < s1 \<and> s1 \<le> s2"
  then show "calculateSafetyScore (spec \<lparr> ncapStars := Some s1 \<rparr>)
        \<le> calculateSafetyScore (spec \<lparr> ncapStars := Some s2 \<rparr>)"
    by (auto simp: safety_of_stars min_def)
next
  assume s: "3 \<le> s"
  then have "calculateSafetyScore (spec \<lparr> ncapStars := Some s \<rparr>) = min (s / 5) 1"
    by (simp add: safety_of_stars)
  then have big: "0.6 \<le> calculateSafetyScore (spec \<lparr> ncapStars := Some s \<rparr>)"
    using s by simp
  show "calculateSafetyScore (spec \<lparr> ncapStars := None \<rparr>)
        \<le> calculateSafetyScore (spec \<lparr> ncapStars := Some s \<rparr>)"
    using big featureSafety_bounds [of spec] by (simp add: safety_unrated)
  show "calculateSafetyScore (spec \<lparr> ncapStars := Some 0 \<rparr>)
        \<le> calculateSafetyScore (spec \<lparr> ncapStars := Some s \<rparr>)"
    using big featureSafety_bounds [of spec] by (simp add: safety_unrated)
next
  assume "ncapStars spec = None \<or> ncapStars spec = Some 0"
  then show "calculateSafetyScore spec = featureSafetyScore spec"
    by (auto simp: calculateSafetyScore_def truthyNum_def)
  then show "calculateSafetyScore spec \<le> 0.6"
    using featureSafety_bounds [of spec] by simp
qed

theorem safety_monotone_in_positive_stars_witness:
  "calculateSafetyScore (airbagSpec \<lparr> ncapStars := Some 2 \<rparr>)
     \<le> calculateSafetyScore (airbagSpec \<lparr> ncapStars := Some 4 \<rparr>) \<and>
   calculateSafetyScore (airbagSpec \<lparr> ncapStars := None \<rparr>)
     \<le> calculateSafetyScore (airbagSpec \<lparr> ncapStars := Some 3 \<rparr>) \<and>
   calculateSafetyScore (airbagSpec \<lparr> ncapStars := Some 0 \<rparr>)
     \<le> calculateSafetyScore (airbagSpec \<lparr> ncapStars := Some 3 \<rparr>) \<and>
   calculateSafetyScore airbagSpec = featureSafetyScore airbagSpec \<and>
   calculateSafetyScore airbagSpec \<le> 0.6"
proof -
  have "ncapStars airbagSpec = None" by (simp add: airbagSpec_def emptySpec_def)
  then show ?thesis
    using safety_monotone_in_positive_stars [of 2 4 airbagSpec 3] by simp
qed

text \<open>
  Claim C5, as stated, fails on a record whose body type is the word \<open>constructor\<close>:
  the table of body types answers with a property that every object inherits, the sum
  is no number any more, and \<open>Math.max(0, totalPenalty)\<close> is NaN, which is not
  \<open>\<ge> 0\<close>.
\<close>

theorem penalty_not_a_number_counterexample:
  "calculateEfficiencyPenalty constructorBodySpec = Inr NotANumber"
  by code_simp

text \<open>
  Claim C5, amended. Whenever \<open>calculateEfficiencyPenalty\<close> returns a number, the
  number is not negative, however many bonuses apply; and it does return a number when
  the body type and the transmission type are each falsy or a string other than the
  names of properties that every object inherits.
\<close>

theorem efficiency_penalty_never_negative:
  "(\<forall>p. calculateEfficiencyPenalty spec = Inr (Num p) \<longrightarrow> 0 \<le> p) \<and>
   (ordinaryType (bodyType spec) \<and> ordinaryType (transmissionType spec) \<longrightarrow>
      (\<exists>p. calculateEfficiencyPenalty spec = Inr (Num p) \<and> 0 \<le> p))"
  using penalty_nonneg [of spec] penalty_number [of spec] by blast

theorem efficiency_penalty_never_negative_witness:
  "displacementPenalty featherSpec = - 10 \<and> weightPenalty featherSpec = - 12 \<and>
   bodyTypePenalty featherSpec = Inr (Num 2) \<and>
   transmissionPenalty featherSpec = Inr (Num (- 3)) \<and>
   gearBonus featherSpec = 3 \<and> calculateEfficiencyPenalty featherSpec = Inr (Num 0) \<and>
   (\<exists>p. calculateEfficiencyPenalty featherSpec = Inr (Num p) \<and> 0 \<le> p)"
proof -
  have "displacementPenalty featherSpec = - 10" by code_simp
  moreover have "weightPenalty featherSpec = - 12" by code_simp
  moreover have "bodyTypePenalty featherSpec = Inr (Num 2)" by code_simp
  moreover have "transmissionPenalty featherSpec = Inr (Num (- 3))" by code_simp
  moreover have "gearBonus featherSpec = 3" by code_simp
  moreover have "calculateEfficiencyPenalty featherSpec = Inr (Num 0)" by code_simp
  moreover have "ordinaryType (bodyType featherSpec) \<and> ordinaryType (transmissionType featherSpec)"
    by code_simp
  ultimately show ?thesis
    using efficiency_penalty_never_negative [of featherSpec] by blast
qed






text \<open>
  Claim C8, as stated, fails: on the record of the scenario the penalty is 4, not about
  \<open>-0.5\<close>, and the real-world efficiency is 12.032, not about 12.8.
\<close>

theorem scenario_penalty_counterexample:
  "calculateEfficiencyPenalty scenarioSpec = Inr (Num 4) \<and>
   calculateRealWorldEfficiency scenarioSpec = Inr (Num 12.032)"
  by code_simp

text \<open>
  Claim C8, amended. On the record of the scenario the displacement, weight, cylinder
  and gear factors contribute nothing and the hatchback body contributes 2, so the
  penalty is 2 plus the transmission term and at least 2; the real-world efficiency
  comes from the estimation branch and is \<open>16 \<times> (1 - penalty \<times> 0.015) \<times> 0.8\<close>, at
  most 12.416.
\<close>

theorem scenario_penalty_and_estimate:
  "displacementPenalty scenarioSpec = 0 \<and> weightPenalty scenarioSpec = 0 \<and>
   cylinderPenalty scenarioSpec = 0 \<and> bodyTypePenalty scenarioSpec = Inr (Num 2) \<and>
   gearBonus scenarioSpec = 0 \<and>
   (case transmissionPenalty scenarioSpec of
      Inr (Num t) \<Rightarrow> calculateEfficiencyPenalty scenarioSpec = Inr (Num (2 + t))
    | _ \<Rightarrow> False) \<and>
   (case calculateEfficiencyPenalty scenarioSpec of
      Inr (Num p) \<Rightarrow>
        2 \<le> p \<and>
        calculateRealWorldEfficiency scenarioSpec = Inr (Num (16 * (1 - p * 0.015) * 0.8))
    | _ \<Rightarrow> False) \<and>
   calculateRealWorldEfficiency scenarioSpec = estimatedRealWorldEfficiency scenarioSpec \<and>
   (case calculateRealWorldEfficiency scenarioSpec of
      Inr (Num x) \<Rightarrow> x \<le> 12.416
    | _ \<Rightarrow> False)"
  by code_simp







end
